theory Spec2Isabelle
  imports Main
begin

section \<open>Data model\<close>

text \<open>
  The script \<^verbatim>\<open>scripts/generate_maps.py\<close> builds two maps: a clustered point map from a
  table with coordinate columns (\<^verbatim>\<open>generate_sf_cluster_map\<close>) and a choropleth that joins
  a table to a GeoJSON document (\<^verbatim>\<open>generate_choropleth\<close>). The embedding follows each
  function statement by statement, from the data frame that \<^verbatim>\<open>pd.read_csv\<close> returns to
  the calls of folium. Of folium, the check that \<^verbatim>\<open>folium.Map\<close> makes of its location is
  modelled, since line 66 passes it the centre that the script computes; what
  \<^verbatim>\<open>folium.Choropleth\<close> does with its arguments is a parameter. Reading the files,
  printing and writing the HTML are not part of the model.

  Exceptions are values. The script raises \<^verbatim>\<open>ValueError\<close> itself, with a message; the
  other constructors are the exceptions Python raises for a failed subscript, attribute
  access or membership test.
\<close>

datatype error = ValueError string | KeyError | IndexError | TypeError | AttributeError

text \<open>
  A cell of a data frame is null (NaN) or a scalar. The script never looks inside a scalar,
  so its type is a parameter. A row maps column names to cells; a cell the row does not
  have reads as null, as \<^verbatim>\<open>read_csv\<close> fills a short line.
\<close>

datatype 'v cell = Null | Val 'v

type_synonym 'v row = "string \<Rightarrow> 'v cell option"

record 'v dataframe =
  columns :: "string list"
  rows :: "'v row list"

definition cell_of :: "'v row \<Rightarrow> string \<Rightarrow> 'v cell" where
  "cell_of r c = (case r c of None \<Rightarrow> Null | Some x \<Rightarrow> x)"

text \<open>
  A parsed JSON document, as \<^verbatim>\<open>json.load\<close> returns it. An object is the list of the
  items of the Python dict (keys distinct); numbers are never inspected.
\<close>

datatype 'n json =
    JNull
  | JBool bool
  | JNum 'n
  | JStr string
  | JArr "'n json list"
  | JObj "(string \<times> 'n json) list"

text \<open>
  The pandas and Python operations whose results the script uses but does not compute:
  \<^verbatim>\<open>DataFrame.sample(n=..., random_state=...)\<close>, \<^verbatim>\<open>Series.median()\<close> and \<^verbatim>\<open>str()\<close>.
  Sampling and the median may raise.
\<close>

record 'v pandas =
  df_sample :: "int \<Rightarrow> nat \<Rightarrow> 'v row list \<Rightarrow> error + 'v row list"
  series_median :: "'v cell list \<Rightarrow> error + 'v cell"
  py_str :: "'v cell \<Rightarrow> string"

definition and_then :: "error + 'a \<Rightarrow> ('a \<Rightarrow> error + 'b) \<Rightarrow> error + 'b" where
  "and_then m f = (case m of Inl e \<Rightarrow> Inl e | Inr x \<Rightarrow> f x)"

section \<open>Python primitives\<close>

text \<open>Truthiness of an optional string: \<^verbatim>\<open>None\<close> and \<^verbatim>\<open>''\<close> are false.\<close>

definition truthy :: "string option \<Rightarrow> bool" where
  "truthy x = (case x of None \<Rightarrow> False | Some s \<Rightarrow> s \<noteq> [])"

definition py_or :: "string option \<Rightarrow> string option \<Rightarrow> string option" where
  "py_or x y = (if truthy x then x else y)"

text \<open>
  \<^verbatim>\<open>str.lower()\<close> on the letters A to Z. Every name the script compares a lowered column
  name with is lower-case ASCII without the letter k, and no character outside A to Z
  lowers to one of their letters, so other characters stay as they are.
\<close>

definition lower_char :: "char \<Rightarrow> char" where
  "lower_char c =
     (case map_of (zip ''ABCDEFGHIJKLMNOPQRSTUVWXYZ'' ''abcdefghijklmnopqrstuvwxyz'') c of
        Some d \<Rightarrow> d
      | None \<Rightarrow> c)"

definition lower :: "string \<Rightarrow> string" where
  "lower s = map lower_char s"

text \<open>\<^verbatim>\<open>f in s\<close> for two strings: \<open>f\<close> occurs in \<open>s\<close> as a contiguous run.\<close>

fun substring :: "string \<Rightarrow> string \<Rightarrow> bool" where
  "substring f [] = (f = [])"
| "substring f (c # cs) = (take (length f) (c # cs) = f \<or> substring f cs)"

text \<open>\<^verbatim>\<open>x[k]\<close> for a string key \<open>k\<close>.\<close>

definition getitem_str :: "'n json \<Rightarrow> string \<Rightarrow> error + 'n json" where
  "getitem_str x k =
     (case x of
        JObj kvs \<Rightarrow> (case map_of kvs k of None \<Rightarrow> Inl KeyError | Some v \<Rightarrow> Inr v)
      | _ \<Rightarrow> Inl TypeError)"

text \<open>\<^verbatim>\<open>x[0]\<close>. The keys of a parsed object are strings, so \<open>0\<close> is never one.\<close>

definition getitem_0 :: "'n json \<Rightarrow> error + 'n json" where
  "getitem_0 x =
     (case x of
        JArr [] \<Rightarrow> Inl IndexError
      | JArr (y # _) \<Rightarrow> Inr y
      | JStr [] \<Rightarrow> Inl IndexError
      | JStr (c # _) \<Rightarrow> Inr (JStr [c])
      | JObj _ \<Rightarrow> Inl KeyError
      | _ \<Rightarrow> Inl TypeError)"

text \<open>\<^verbatim>\<open>x.get(k, default)\<close>: only a dict has the method.\<close>

definition get_default :: "'n json \<Rightarrow> string \<Rightarrow> 'n json \<Rightarrow> error + 'n json" where
  "get_default x k d =
     (case x of
        JObj kvs \<Rightarrow> Inr (case map_of kvs k of None \<Rightarrow> d | Some v \<Rightarrow> v)
      | _ \<Rightarrow> Inl AttributeError)"

text \<open>
  \<^verbatim>\<open>f in x\<close> for a string \<open>f\<close>: a key of a dict, an element of a list, a substring of a
  string; any other value is not a container.
\<close>

definition py_in :: "string \<Rightarrow> 'n json \<Rightarrow> error + bool" where
  "py_in f x =
     (case x of
        JObj kvs \<Rightarrow> Inr (map_of kvs f \<noteq> None)
      | JArr ys \<Rightarrow> Inr (JStr f \<in> set ys)
      | JStr s \<Rightarrow> Inr (substring f s)
      | _ \<Rightarrow> Inl TypeError)"

text \<open>
  \<^verbatim>\<open>next((f for f in names if f in x), None)\<close>: the tests run in order and stop at the
  first that holds; a test that raises ends the scan.
\<close>

fun next_in :: "string list \<Rightarrow> 'n json \<Rightarrow> error + string option" where
  "next_in [] x = Inr None"
| "next_in (f # fs) x =
     (case py_in f x of
        Inl e \<Rightarrow> Inl e
      | Inr b \<Rightarrow> if b then Inr (Some f) else next_in fs x)"

section \<open>The point pipeline\<close>

definition lat_candidates :: "string list" where
  "lat_candidates = [''lat'', ''latitude'', ''y'', ''y_coord'', ''ycoord'', ''Latitude'', ''LAT'']"

definition lon_candidates :: "string list" where
  "lon_candidates =
     [''lon'', ''lng'', ''longitude'', ''x'', ''x_coord'', ''xcoord'', ''Longitude'', ''LON'']"

text \<open>
  \<^verbatim>\<open>find_lat_lon_columns\<close>: for each role, the first candidate that is a column.
\<close>

definition find_lat_lon_columns :: "'v dataframe \<Rightarrow> string option \<times> string option" where
  "find_lat_lon_columns df =
     (let lat_col = find (\<lambda>c. c \<in> set (columns df)) lat_candidates;
          lon_col = find (\<lambda>c. c \<in> set (columns df)) lon_candidates
      in (lat_col, lon_col))"

definition sf_message :: string where
  "sf_message =
     ''Could not find latitude/longitude columns in the SF CSV. '' @
     ''Expected columns like 'lat','latitude','lng','lon','y','x', etc.''"

text \<open>\<^verbatim>\<open>df.dropna(subset=cs)\<close>: keep the rows with no null cell in the columns \<open>cs\<close>.\<close>

definition dropna :: "string list \<Rightarrow> 'v dataframe \<Rightarrow> 'v dataframe" where
  "dropna cs df = df\<lparr>rows := filter (\<lambda>r. list_all (\<lambda>c. cell_of r c \<noteq> Null) cs) (rows df)\<rparr>"

text \<open>
  Lines 59 and 60: above the cap, sample \<open>max_points\<close> rows with \<^verbatim>\<open>random_state=1\<close>.
\<close>

definition random_state :: nat where
  "random_state = 1"

definition limit_points :: "'v pandas \<Rightarrow> int \<Rightarrow> 'v dataframe \<Rightarrow> error + 'v dataframe" where
  "limit_points env max_points df =
     (if int (length (rows df)) > max_points
      then and_then (df_sample env max_points random_state (rows df)) (\<lambda>rs. Inr (df\<lparr>rows := rs\<rparr>))
      else Inr df)"

text \<open>
  \<^verbatim>\<open>Series.median()\<close>: NaN for a column without rows; for any other column the value is
  the one pandas computes.
\<close>

definition median_of :: "'v pandas \<Rightarrow> 'v cell list \<Rightarrow> error + 'v cell" where
  "median_of env xs = (if xs = [] then Inr Null else series_median env xs)"

text \<open>
  \<^verbatim>\<open>folium.Map(location=[lat, lon], ...)\<close> validates the location before it builds the
  map: a NaN coordinate raises \<^verbatim>\<open>ValueError\<close>.
\<close>

definition nan_location_message :: string where
  "nan_location_message = ''Location values cannot contain NaNs.''"

definition folium_Map :: "'v cell \<times> 'v cell \<Rightarrow> error + unit" where
  "folium_Map location =
     (if fst location = Null \<or> snd location = Null
      then Inl (ValueError nan_location_message)
      else Inr ())"

definition category_candidates :: "string list" where
  "category_candidates = [''category'', ''Category'', ''crime_type'', ''offense'']"

record 'v marker =
  location :: "'v cell \<times> 'v cell"
  popup :: "string option"

text \<open>
  The map that the script builds once \<^verbatim>\<open>folium.Map\<close> has accepted the centre: the centre
  and one marker for each row.
\<close>

record 'v cluster_map =
  center :: "'v cell \<times> 'v cell"
  markers :: "'v marker list"

definition circle_marker ::
  "'v pandas \<Rightarrow> string \<Rightarrow> string \<Rightarrow> string option \<Rightarrow> 'v row \<Rightarrow> 'v marker" where
  "circle_marker env lat_col lon_col category_col r =
     \<lparr>location = (cell_of r lat_col, cell_of r lon_col),
      popup = (case category_col of
                 None \<Rightarrow> None
               | Some c \<Rightarrow> if c = [] then None else Some (py_str env (cell_of r c)))\<rparr>"

definition generate_sf_cluster_map ::
  "'v pandas \<Rightarrow> 'v dataframe \<Rightarrow> int \<Rightarrow> error + 'v cluster_map" where
  "generate_sf_cluster_map env df0 max_points =
     (case find_lat_lon_columns df0 of
        (Some lat_col, Some lon_col) \<Rightarrow>
          if lat_col = [] \<or> lon_col = [] then Inl (ValueError sf_message)
          else
            and_then (limit_points env max_points (dropna [lat_col, lon_col] df0)) (\<lambda>df.
            and_then (median_of env (map (\<lambda>r. cell_of r lat_col) (rows df))) (\<lambda>center_lat.
            and_then (median_of env (map (\<lambda>r. cell_of r lon_col) (rows df))) (\<lambda>center_lon.
            and_then (folium_Map (center_lat, center_lon)) (\<lambda>m.
              let category_col = find (\<lambda>c. c \<in> set (columns df)) category_candidates
              in Inr \<lparr>center = (center_lat, center_lon),
                      markers = map (circle_marker env lat_col lon_col category_col) (rows df)\<rparr>))))
      | _ \<Rightarrow> Inl (ValueError sf_message))"

section \<open>The join pipeline\<close>

definition value_names :: "string list" where
  "value_names = [''value'', ''count'', ''immigrants'', ''migration'', ''num'']"

definition country_names :: "string list" where
  "country_names = [''country'', ''country_name'', ''origin'', ''iso_a3'', ''iso3'', ''iso'']"

text \<open>
  Lines 95 and 96: an override that is true is used as it is; otherwise the first column,
  in the order of the table, whose lowered name is one of the names of the role.
\<close>

definition migration_value_field_of :: "'v dataframe \<Rightarrow> string option \<Rightarrow> string option" where
  "migration_value_field_of mdf migration_value_field =
     py_or migration_value_field (find (\<lambda>c. lower c \<in> set value_names) (columns mdf))"

definition migration_country_field_of :: "'v dataframe \<Rightarrow> string option \<Rightarrow> string option" where
  "migration_country_field_of mdf migration_country_field =
     py_or migration_country_field (find (\<lambda>c. lower c \<in> set country_names) (columns mdf))"

definition choropleth_message :: string where
  "choropleth_message =
     ''Could not identify country or value columns in migration CSV. '' @
     ''Please provide --migration-country-field and --migration-value-field flags.''"

definition geojson_id_names :: "string list" where
  "geojson_id_names = [''iso_a3'', ''ISO_A3'', ''iso3'', ''id'', ''ADM0_A3'', ''ISO3'']"

text \<open>
  Lines 108 to 111: a field given by the caller is kept; with none, the names are looked
  up in the properties of \<^verbatim>\<open>gj['features'][0]\<close>.
\<close>

definition geojson_id_field_of :: "'n json \<Rightarrow> string option \<Rightarrow> error + string option" where
  "geojson_id_field_of gj geojson_id_field =
     (case geojson_id_field of
        None \<Rightarrow>
          and_then (getitem_str gj ''features'') (\<lambda>features.
          and_then (getitem_0 features) (\<lambda>feature.
          and_then (get_default feature ''properties'' (JObj [])) (\<lambda>sample_props.
            next_in geojson_id_names sample_props)))
      | Some f \<Rightarrow> Inr (Some f))"

text \<open>Lines 114 to 120: the locator of the property that the rows are matched on.\<close>

definition key_on_of :: "string option \<Rightarrow> string" where
  "key_on_of geojson_id_field =
     (case geojson_id_field of
        None \<Rightarrow> ''feature.properties.name''
      | Some f \<Rightarrow> if f = [] then ''feature.properties.name'' else ''feature.properties.'' @ f)"

text \<open>
  Lines 124 and 125: \<^verbatim>\<open>mdf[[country, value]]\<close> raises \<^verbatim>\<open>KeyError\<close> for a name that is
  not a column; the two selected columns are then renamed \<^verbatim>\<open>country_key\<close> and
  \<^verbatim>\<open>value\<close>, so a row of the result is the pair of its two cells.
\<close>

definition choro_df_of ::
  "'v dataframe \<Rightarrow> string \<Rightarrow> string \<Rightarrow> error + ('v cell \<times> 'v cell) list" where
  "choro_df_of mdf country_field value_field =
     (if country_field \<in> set (columns mdf) \<and> value_field \<in> set (columns mdf)
      then Inr (map (\<lambda>r. (cell_of r country_field, cell_of r value_field)) (rows mdf))
      else Inl KeyError)"

text \<open>What the script hands to \<^verbatim>\<open>folium.Choropleth\<close>.\<close>

record ('v, 'n) choropleth =
  geo_data :: "'n json"
  data :: "('v cell \<times> 'v cell) list"
  key_on :: string

definition generate_choropleth ::
  "'v dataframe \<Rightarrow> 'n json \<Rightarrow> string option \<Rightarrow> string option \<Rightarrow> string option
     \<Rightarrow> error + ('v, 'n) choropleth" where
  "generate_choropleth mdf gj geojson_id_field migration_country_field migration_value_field =
     (let value_field = migration_value_field_of mdf migration_value_field;
          country_field = migration_country_field_of mdf migration_country_field
      in case (country_field, value_field) of
           (Some cf, Some vf) \<Rightarrow>
             and_then (geojson_id_field_of gj geojson_id_field) (\<lambda>id_field.
             and_then (choro_df_of mdf cf vf) (\<lambda>choro_df.
               Inr \<lparr>geo_data = gj, data = choro_df, key_on = key_on_of id_field\<rparr>))
         | _ \<Rightarrow> Inl (ValueError choropleth_message))"

text \<open>
  Lines 130 to 140: the arguments go to \<^verbatim>\<open>folium.Choropleth\<close>, and an exception of the
  constructor is an exception of the function. The constructor is the parameter
  \<open>choropleth_layer\<close>.
\<close>

definition render_choropleth ::
  "(('v, 'n) choropleth \<Rightarrow> error + 'r) \<Rightarrow> 'v dataframe \<Rightarrow> 'n json \<Rightarrow> string option
     \<Rightarrow> string option \<Rightarrow> string option \<Rightarrow> error + 'r" where
  "render_choropleth choropleth_layer mdf gj geojson_id_field migration_country_field
       migration_value_field =
     and_then
       (generate_choropleth mdf gj geojson_id_field migration_country_field migration_value_field)
       choropleth_layer"

section \<open>An instance of the library operations\<close>

text \<open>
  The examples below are evaluated with this instance over text cells. The median of an
  empty column is NaN and \<^verbatim>\<open>str\<close> of NaN is \<^verbatim>\<open>nan\<close>, as in pandas; the sample is
  the first \<open>n\<close> rows and the median of a column with cells is its first cell, which
  stand in for the values pandas computes.
\<close>

definition example_pandas :: "string pandas" where
  "example_pandas =
     \<lparr>df_sample = (\<lambda>n seed rs. Inr (take (nat n) rs)),
      series_median = (\<lambda>xs. case xs of [] \<Rightarrow> Inr Null | x # _ \<Rightarrow> Inr x),
      py_str = (\<lambda>c. case c of Null \<Rightarrow> ''nan'' | Val s \<Rightarrow> s)\<rparr>"

text \<open>
  A second instance: it agrees with the first wherever the seed is the one the script
  passes and reverses the sample for any other seed.
\<close>

definition reseeded_pandas :: "string pandas" where
  "reseeded_pandas =
     example_pandas
       \<lparr>df_sample := (\<lambda>n seed rs. if seed = 1 then Inr (take (nat n) rs)
                                    else Inr (rev (take (nat n) rs)))\<rparr>"

text \<open>
  A stand-in for \<^verbatim>\<open>folium.Choropleth\<close> in the examples: it reads
  \<^verbatim>\<open>geo_data['features']\<close>, as folium does with a feature collection, and accepts every
  document that has the key.
\<close>

definition example_choropleth_layer :: "(string, int) choropleth \<Rightarrow> error + unit" where
  "example_choropleth_layer c = and_then (getitem_str (geo_data c) ''features'') (\<lambda>features. Inr ())"

section \<open>Example inputs\<close>

definition sf_example :: "string dataframe" where
  "sf_example =
     \<lparr>columns = [''Latitude'', ''Longitude'', ''offense''],
      rows =
        [[''Latitude'' \<mapsto> Val ''37.77'', ''Longitude'' \<mapsto> Val ''-122.42'',
          ''offense'' \<mapsto> Val ''THEFT''],
         [''Latitude'' \<mapsto> Null, ''Longitude'' \<mapsto> Val ''-122.40'',
          ''offense'' \<mapsto> Val ''ASSAULT''],
         [''Latitude'' \<mapsto> Val ''37.80'', ''Longitude'' \<mapsto> Val ''-122.41'',
          ''offense'' \<mapsto> Null]]\<rparr>"

definition sf_all_null :: "string dataframe" where
  "sf_all_null =
     \<lparr>columns = [''lat'', ''lon''],
      rows =
        [[''lat'' \<mapsto> Null, ''lon'' \<mapsto> Val ''-122.40''],
         [''lat'' \<mapsto> Val ''37.80'', ''lon'' \<mapsto> Null]]\<rparr>"

definition migration_example :: "string dataframe" where
  "migration_example =
     \<lparr>columns = [''Country'', ''Count''],
      rows =
        [[''Country'' \<mapsto> Val ''Germany'', ''Count'' \<mapsto> Val ''5''],
         [''Country'' \<mapsto> Val ''germany'', ''Count'' \<mapsto> Val ''7'']]\<rparr>"

definition census_example :: "string dataframe" where
  "census_example =
     \<lparr>columns = [''country'', ''pop''],
      rows = [[''country'' \<mapsto> Val ''Germany'', ''pop'' \<mapsto> Val ''83'']]\<rparr>"

text \<open>A feature collection with one feature whose properties are \<open>props\<close>.\<close>

definition world_of :: "(string \<times> int json) list \<Rightarrow> int json" where
  "world_of props =
     JObj [(''type'', JStr ''FeatureCollection''),
           (''features'',
            JArr [JObj [(''type'', JStr ''Feature''), (''properties'', JObj props)]])]"

section \<open>Facts about the scans and the name tables\<close>

lemma find_in_set: "find P xs = Some x \<Longrightarrow> x \<in> set xs \<and> P x"
  by (auto simp: find_Some_iff)

text \<open>
  A scan that has a match returns the first one.
\<close>

lemma find_first:
  "x \<in> set xs \<Longrightarrow> P x \<Longrightarrow>
   \<exists>i<length xs. find P xs = Some (xs ! i) \<and> P (xs ! i) \<and> (\<forall>j<i. \<not> P (xs ! j))"
proof -
  assume "x \<in> set xs" "P x"
  then have "find P xs \<noteq> None" by (auto simp: find_None_iff)
  then obtain y where "find P xs = Some y" by auto
  then show ?thesis by (auto simp: find_Some_iff)
qed

text \<open>
  On a dict, the scan over the names is a search for the first name that is a key.
\<close>

lemma next_in_JObj:
  "next_in names (JObj props) = Inr (find (\<lambda>f. f \<in> fst ` set props) names)"
  by (induction names) (simp_all add: py_in_def map_of_eq_None_iff)

lemma geojson_id_first_feature:
  assumes "map_of g ''features'' = Some (JArr (JObj feature # others))"
    and "map_of feature ''properties'' = Some (JObj props)"
  shows "geojson_id_field_of (JObj g) None
           = Inr (find (\<lambda>f. f \<in> fst ` set props) geojson_id_names)"
  using assms
  by (simp add: geojson_id_field_of_def getitem_str_def getitem_0_def get_default_def
        and_then_def next_in_JObj)

text \<open>
  The empty name is in no table, and the tables of different roles share no name.
\<close>

lemma lower_Nil_not_named:
  "lower c \<in> set value_names \<Longrightarrow> c \<noteq> []"
  "lower c \<in> set country_names \<Longrightarrow> c \<noteq> []"
  by (auto simp: lower_def value_names_def country_names_def)

lemma find_named_nonempty:
  "find (\<lambda>c. lower c \<in> set value_names) cols \<noteq> Some []"
  "find (\<lambda>c. lower c \<in> set country_names) cols \<noteq> Some []"
  by (auto simp: find_Some_iff dest: lower_Nil_not_named)

lemma names_disjoint: "set value_names \<inter> set country_names = {}"
  by (simp add: value_names_def country_names_def)

lemma candidates_disjoint:
  "set lat_candidates \<inter> set lon_candidates = {}"
  "set lat_candidates \<inter> set category_candidates = {}"
  "set lon_candidates \<inter> set category_candidates = {}"
  by (simp_all add: lat_candidates_def lon_candidates_def category_candidates_def)

lemma candidates_nonempty:
  "[] \<notin> set lat_candidates" "[] \<notin> set lon_candidates"
  by (simp_all add: lat_candidates_def lon_candidates_def)

lemma find_lat_lon_nonempty:
  "find_lat_lon_columns df = (Some lat_col, Some lon_col) \<Longrightarrow> lat_col \<noteq> [] \<and> lon_col \<noteq> []"
  using candidates_nonempty
  by (auto simp: find_lat_lon_columns_def Let_def dest!: find_in_set)

text \<open>
  The unfoldings that evaluate the two pipelines on a concrete input.
\<close>

lemmas eval_choropleth =
  generate_choropleth_def migration_value_field_of_def migration_country_field_of_def
  py_or_def truthy_def lower_def lower_char_def value_names_def country_names_def
  geojson_id_field_of_def world_of_def getitem_str_def getitem_0_def get_default_def and_then_def
  geojson_id_names_def py_in_def choro_df_of_def key_on_of_def cell_of_def

lemmas eval_sf =
  generate_sf_cluster_map_def median_of_def folium_Map_def find_lat_lon_columns_def lat_candidates_def lon_candidates_def
  dropna_def cell_of_def limit_points_def and_then_def example_pandas_def category_candidates_def
  circle_marker_def random_state_def

section \<open>The key reconciler\<close>

text \<open>
  C1, as stated, says that the generic name \<open>id\<close> is the last of the priority list. In
  the script \<open>id\<close> is the fourth of six names, before \<open>ADM0_A3\<close> and \<open>ISO3\<close>: for a
  first feature with the properties \<open>ISO3\<close> and \<open>id\<close> the locator is
  \<open>feature.properties.id\<close>, although an ISO-3 spelling is present.
\<close>

theorem key_reconciler_id_not_last_counterexample:
  "last geojson_id_names = ''ISO3''
   \<and> generate_choropleth migration_example
        (world_of [(''ISO3'', JStr ''USA''), (''id'', JStr ''840'')]) None None None
       = Inr \<lparr>geo_data = world_of [(''ISO3'', JStr ''USA''), (''id'', JStr ''840'')],
              data = [(Val ''Germany'', Val ''5''), (Val ''germany'', Val ''7'')],
              key_on = ''feature.properties.id''\<rparr>"
  by (simp add: eval_choropleth migration_example_def)

text \<open>
  C1, amended. With no property name from the caller, only the properties of the first
  feature are looked at (the other features are arbitrary), and the property chosen is the
  first name of \<open>iso_a3, ISO_A3, iso3, id, ADM0_A3, ISO3\<close> that is a key of them. For the
  properties \<open>ADM0_A3\<close> and \<open>name\<close> of the specification's example the locator is
  \<open>feature.properties.ADM0_A3\<close>.
\<close>

theorem key_reconciler_first_feature_priority:
  assumes "map_of g ''features'' = Some (JArr (JObj feature # others))"
    and "map_of feature ''properties'' = Some (JObj props)"
  shows "geojson_id_names = [''iso_a3'', ''ISO_A3'', ''iso3'', ''id'', ''ADM0_A3'', ''ISO3'']
    \<and> geojson_id_field_of (JObj g) None
         = Inr (find (\<lambda>f. f \<in> fst ` set props) geojson_id_names)
    \<and> map_sum id key_on
         (generate_choropleth migration_example
            (world_of [(''ADM0_A3'', JStr ''USA''), (''name'', JStr ''United States'')])
            None None None)
         = Inr ''feature.properties.ADM0_A3''"
proof -
  have "geojson_id_names = [''iso_a3'', ''ISO_A3'', ''iso3'', ''id'', ''ADM0_A3'', ''ISO3'']"
    by (simp add: geojson_id_names_def)
  moreover have "map_sum id key_on
         (generate_choropleth migration_example
            (world_of [(''ADM0_A3'', JStr ''USA''), (''name'', JStr ''United States'')])
            None None None)
         = Inr ''feature.properties.ADM0_A3''"
    by (simp add: eval_choropleth migration_example_def)
  ultimately show ?thesis
    using geojson_id_first_feature [OF assms] by simp
qed

theorem key_reconciler_first_feature_priority_witness:
  "geojson_id_field_of
     (JObj [(''features'',
             JArr [JObj [(''properties'', JObj [(''ADM0_A3'', JStr ''USA''), (''name'', JStr ''United States'')])],
                   JObj [(''properties'', JObj [(''iso_a3'', JStr ''CAN'')])]])] :: int json) None
   = Inr (Some ''ADM0_A3'')"
proof -
  have h1: "map_of [(''features'',
             JArr [JObj [(''properties'', JObj [(''ADM0_A3'', JStr ''USA''), (''name'', JStr ''United States'')])],
                   JObj [(''properties'', JObj [(''iso_a3'', JStr ''CAN'')])]])] ''features''
      = Some (JArr (JObj [(''properties'', JObj [(''ADM0_A3'', JStr ''USA''), (''name'', JStr ''United States'')])]
                    # [JObj [(''properties'', JObj [(''iso_a3'', JStr ''CAN'' :: int json)])]]))"
    by simp
  have h2: "map_of [(''properties'', JObj [(''ADM0_A3'', JStr ''USA''), (''name'', JStr ''United States'')])] ''properties''
      = Some (JObj [(''ADM0_A3'', JStr ''USA''), (''name'', JStr ''United States'' :: int json)])"
    by simp
  from key_reconciler_first_feature_priority [OF h1 h2] show ?thesis
    by (simp add: geojson_id_names_def)
qed

text \<open>
  C8. With no property name from the caller and none of the six names among the properties
  of the first feature, the locator is \<open>feature.properties.name\<close>, and the keys handed to
  the renderer are the cells of the key column as they are, row by row: the script
  changes neither case nor spelling. The two rows of the example differ in case only and
  stay different.
\<close>

theorem name_fallback_verbatim_keys:
  assumes "map_of g ''features'' = Some (JArr (JObj feature # others))"
    and "map_of feature ''properties'' = Some (JObj props)"
    and "\<forall>f \<in> set geojson_id_names. f \<notin> fst ` set props"
    and "migration_country_field_of mdf country_override = Some cf"
    and "migration_value_field_of mdf value_override = Some vf"
    and "cf \<in> set (columns mdf)" and "vf \<in> set (columns mdf)"
  shows "generate_choropleth mdf (JObj g) None country_override value_override
           = Inr \<lparr>geo_data = JObj g,
                  data = map (\<lambda>r. (cell_of r cf, cell_of r vf)) (rows mdf),
                  key_on = ''feature.properties.name''\<rparr>"
proof -
  have "find (\<lambda>f. f \<in> fst ` set props) geojson_id_names = None"
    using assms(3) by (simp add: find_None_iff)
  then have "geojson_id_field_of (JObj g) None = Inr None"
    using geojson_id_first_feature [OF assms(1,2)] by simp
  then show ?thesis
    using assms(4-7)
    by (simp add: generate_choropleth_def and_then_def choro_df_of_def key_on_of_def)
qed

theorem name_fallback_verbatim_keys_witness:
  "generate_choropleth migration_example (world_of [(''pop'', JNum 123)]) None None None
     = Inr \<lparr>geo_data = world_of [(''pop'', JNum 123)],
            data = [(Val ''Germany'', Val ''5''), (Val ''germany'', Val ''7'')],
            key_on = ''feature.properties.name''\<rparr>"
proof -
  have h1: "map_of [(''type'', JStr ''FeatureCollection''),
           (''features'',
            JArr [JObj [(''type'', JStr ''Feature''), (''properties'', JObj [(''pop'', JNum (123::int))])]])]
           ''features''
       = Some (JArr (JObj [(''type'', JStr ''Feature''), (''properties'', JObj [(''pop'', JNum 123)])] # []))"
    by simp
  have h2: "map_of [(''type'', JStr ''Feature''), (''properties'', JObj [(''pop'', JNum (123::int))])]
      ''properties'' = Some (JObj [(''pop'', JNum 123)])"
    by simp
  have h3: "\<forall>f \<in> set geojson_id_names. f \<notin> fst ` set [(''pop'', JNum (123::int))]"
    by (simp add: geojson_id_names_def)
  have h4: "migration_country_field_of migration_example None = Some ''Country''"
    by (simp add: migration_country_field_of_def py_or_def truthy_def migration_example_def
          lower_def lower_char_def country_names_def)
  have h5: "migration_value_field_of migration_example None = Some ''Count''"
    by (simp add: migration_value_field_of_def py_or_def truthy_def migration_example_def
          lower_def lower_char_def value_names_def)
  have h6: "''Country'' \<in> set (columns migration_example)"
    and h7: "''Count'' \<in> set (columns migration_example)"
    by (simp_all add: migration_example_def)
  from name_fallback_verbatim_keys [OF h1 h2 h3 h4 h5 h6 h7]
  show ?thesis
    by (simp add: world_of_def migration_example_def cell_of_def)
qed

text \<open>
  C5, as stated, names an error for malformed geometry. The script has none and makes no
  check of the document: without the key \<open>features\<close> the failure is the \<^verbatim>\<open>KeyError\<close> of
  the subscript \<^verbatim>\<open>gj['features']\<close>, the error that the pipeline also gives for a
  well-formed document when the caller names a column that the table lacks.
\<close>

theorem missing_features_plain_key_error_counterexample:
  "generate_choropleth migration_example (JObj [(''type'', JStr ''FeatureCollection'')] :: int json)
      None None None = Inl KeyError
   \<and> generate_choropleth migration_example (world_of [(''iso_a3'', JStr ''DEU'')])
      None (Some ''Nation'') None = Inl KeyError"
  by (simp add: eval_choropleth migration_example_def)

text \<open>
  C5, amended. Let the document be an object without the key \<open>features\<close> and both columns
  of the table be resolved. When the caller names no property, the join pipeline fails with
  the \<^verbatim>\<open>KeyError\<close> of the subscript \<^verbatim>\<open>gj['features']\<close>, before the constructor of the
  choropleth is called. When the caller names a property, the script does not read the
  document: the outcome of the pipeline is the outcome of the constructor on the unchanged
  document (after the two columns are selected). So whenever the constructor rejects the
  document with \<^verbatim>\<open>KeyError\<close>, as folium does for a feature collection without features,
  the pipeline fails with \<^verbatim>\<open>KeyError\<close> whether or not a property is named.
\<close>

theorem missing_features_fails_with_key_error:
  assumes "migration_country_field_of mdf country_override = Some cf"
    and "migration_value_field_of mdf value_override = Some vf"
    and "map_of g ''features'' = None"
  shows "generate_choropleth mdf (JObj g) None country_override value_override = Inl KeyError
    \<and> render_choropleth choropleth_layer mdf (JObj g) None country_override value_override
         = Inl KeyError
    \<and> render_choropleth choropleth_layer mdf (JObj g) (Some f) country_override value_override
         = and_then (choro_df_of mdf cf vf) (\<lambda>choro_df.
             choropleth_layer
               \<lparr>geo_data = JObj g, data = choro_df, key_on = key_on_of (Some f)\<rparr>)
    \<and> ((\<forall>d k. choropleth_layer \<lparr>geo_data = JObj g, data = d, key_on = k\<rparr> = Inl KeyError)
         \<longrightarrow> render_choropleth choropleth_layer mdf (JObj g) id_override country_override
               value_override = Inl KeyError)"
proof -
  have script: "generate_choropleth mdf (JObj g) None country_override value_override
                  = Inl KeyError"
    using assms
    by (simp add: generate_choropleth_def geojson_id_field_of_def getitem_str_def and_then_def)
  have named: "render_choropleth choropleth_layer mdf (JObj g) (Some p) country_override
                 value_override
         = and_then (choro_df_of mdf cf vf) (\<lambda>choro_df.
             choropleth_layer
               \<lparr>geo_data = JObj g, data = choro_df, key_on = key_on_of (Some p)\<rparr>)" for p
    using assms(1,2)
    by (simp add: render_choropleth_def generate_choropleth_def geojson_id_field_of_def
          and_then_def split: sum.splits)
  have unnamed: "render_choropleth choropleth_layer mdf (JObj g) None country_override
                   value_override = Inl KeyError"
    using script by (simp add: render_choropleth_def and_then_def)
  have rejected: "render_choropleth choropleth_layer mdf (JObj g) id_override country_override
                    value_override = Inl KeyError"
    if r: "\<forall>d k. choropleth_layer \<lparr>geo_data = JObj g, data = d, key_on = k\<rparr> = Inl KeyError"
  proof (cases id_override)
    case None
    then show ?thesis using unnamed by simp
  next
    case (Some p)
    then show ?thesis
      using named [of p] r
      by (simp add: and_then_def choro_df_of_def split: sum.splits)
  qed
  from script unnamed named [of f] rejected show ?thesis
    by blast
qed

theorem missing_features_fails_with_key_error_witness:
  "render_choropleth example_choropleth_layer migration_example
       (JObj [(''type'', JStr ''FeatureCollection'')]) None None None = Inl KeyError
   \<and> render_choropleth example_choropleth_layer migration_example
       (JObj [(''type'', JStr ''FeatureCollection'')]) (Some ''iso_a3'') None None = Inl KeyError"
proof -
  have h1: "migration_country_field_of migration_example None = Some ''Country''"
    by (simp add: migration_country_field_of_def py_or_def truthy_def migration_example_def
          lower_def lower_char_def country_names_def)
  have h2: "migration_value_field_of migration_example None = Some ''Count''"
    by (simp add: migration_value_field_of_def py_or_def truthy_def migration_example_def
          lower_def lower_char_def value_names_def)
  have h3: "map_of [(''type'', JStr ''FeatureCollection'' :: int json)] ''features'' = None"
    by simp
  have h4: "\<forall>d k. example_choropleth_layer
              \<lparr>geo_data = JObj [(''type'', JStr ''FeatureCollection'')], data = d, key_on = k\<rparr>
            = Inl KeyError"
    by (simp add: example_choropleth_layer_def getitem_str_def and_then_def)
  note t = missing_features_fails_with_key_error [OF h1 h2 h3, of example_choropleth_layer]
  from t [THEN conjunct2, THEN conjunct1]
       t [THEN conjunct2, THEN conjunct2, THEN conjunct2, THEN mp, OF h4,
          of "Some ''iso_a3''"]
  show ?thesis by simp
qed

section \<open>The schema resolver\<close>

text \<open>
  C4, as stated, fails for the join pipeline: the scan there runs over the columns of the
  table, not over the names of the role. In a table with the columns \<open>count, country,
  value\<close> the value role is \<open>count\<close>, while the first name of the role's list that is a
  column is \<open>value\<close>.
\<close>

theorem join_resolver_schema_order_counterexample:
  "migration_value_field_of \<lparr>columns = [''count'', ''country'', ''value''], rows = ([] :: string row list)\<rparr> None
      = Some ''count''
   \<and> find (\<lambda>c. c \<in> set [''count'', ''country'', ''value'']) value_names = Some ''value''"
  by (simp add: migration_value_field_of_def py_or_def truthy_def lower_def lower_char_def
        value_names_def)

text \<open>
  C4, amended. For latitude and longitude, a table with a candidate among its columns
  gets the first candidate, in the order of the role's list, that is a column. For the
  country key and the value, with no override that is true, a table with a column whose
  lowered name is a name of the role gets the first such column, in the order of the
  table.
\<close>

theorem resolver_first_match:
  "(c \<in> set lat_candidates \<and> c \<in> set (columns df) \<longrightarrow>
      (\<exists>i < length lat_candidates.
         fst (find_lat_lon_columns df) = Some (lat_candidates ! i)
         \<and> lat_candidates ! i \<in> set (columns df)
         \<and> (\<forall>j < i. lat_candidates ! j \<notin> set (columns df))))
   \<and> (c \<in> set lon_candidates \<and> c \<in> set (columns df) \<longrightarrow>
      (\<exists>i < length lon_candidates.
         snd (find_lat_lon_columns df) = Some (lon_candidates ! i)
         \<and> lon_candidates ! i \<in> set (columns df)
         \<and> (\<forall>j < i. lon_candidates ! j \<notin> set (columns df))))
   \<and> (c \<in> set (columns df) \<and> lower c \<in> set country_names \<and> \<not> truthy override \<longrightarrow>
      (\<exists>i < length (columns df).
         migration_country_field_of df override = Some (columns df ! i)
         \<and> lower (columns df ! i) \<in> set country_names
         \<and> (\<forall>j < i. lower (columns df ! j) \<notin> set country_names)))
   \<and> (c \<in> set (columns df) \<and> lower c \<in> set value_names \<and> \<not> truthy override \<longrightarrow>
      (\<exists>i < length (columns df).
         migration_value_field_of df override = Some (columns df ! i)
         \<and> lower (columns df ! i) \<in> set value_names
         \<and> (\<forall>j < i. lower (columns df ! j) \<notin> set value_names)))"
proof (intro conjI impI)
  assume "c \<in> set lat_candidates \<and> c \<in> set (columns df)"
  then show "\<exists>i < length lat_candidates.
         fst (find_lat_lon_columns df) = Some (lat_candidates ! i)
         \<and> lat_candidates ! i \<in> set (columns df)
         \<and> (\<forall>j < i. lat_candidates ! j \<notin> set (columns df))"
    using find_first [of c lat_candidates "\<lambda>c. c \<in> set (columns df)"]
    by (simp add: find_lat_lon_columns_def)
next
  assume "c \<in> set lon_candidates \<and> c \<in> set (columns df)"
  then show "\<exists>i < length lon_candidates.
         snd (find_lat_lon_columns df) = Some (lon_candidates ! i)
         \<and> lon_candidates ! i \<in> set (columns df)
         \<and> (\<forall>j < i. lon_candidates ! j \<notin> set (columns df))"
    using find_first [of c lon_candidates "\<lambda>c. c \<in> set (columns df)"]
    by (simp add: find_lat_lon_columns_def)
next
  assume "c \<in> set (columns df) \<and> lower c \<in> set country_names \<and> \<not> truthy override"
  then show "\<exists>i < length (columns df).
         migration_country_field_of df override = Some (columns df ! i)
         \<and> lower (columns df ! i) \<in> set country_names
         \<and> (\<forall>j < i. lower (columns df ! j) \<notin> set country_names)"
    using find_first [of c "columns df" "\<lambda>c. lower c \<in> set country_names"]
    by (simp add: migration_country_field_of_def py_or_def)
next
  assume "c \<in> set (columns df) \<and> lower c \<in> set value_names \<and> \<not> truthy override"
  then show "\<exists>i < length (columns df).
         migration_value_field_of df override = Some (columns df ! i)
         \<and> lower (columns df ! i) \<in> set value_names
         \<and> (\<forall>j < i. lower (columns df ! j) \<notin> set value_names)"
    using find_first [of c "columns df" "\<lambda>c. lower c \<in> set value_names"]
    by (simp add: migration_value_field_of_def py_or_def)
qed

theorem resolver_first_match_witness:
  "(\<exists>i < length lat_candidates.
         fst (find_lat_lon_columns sf_example) = Some (lat_candidates ! i)
         \<and> lat_candidates ! i \<in> set (columns sf_example)
         \<and> (\<forall>j < i. lat_candidates ! j \<notin> set (columns sf_example)))
   \<and> fst (find_lat_lon_columns sf_example) = Some ''Latitude''
   \<and> (\<exists>i < length (columns migration_example).
         migration_value_field_of migration_example None = Some (columns migration_example ! i)
         \<and> lower (columns migration_example ! i) \<in> set value_names
         \<and> (\<forall>j < i. lower (columns migration_example ! j) \<notin> set value_names))
   \<and> migration_value_field_of migration_example None = Some ''Count''"
proof -
  have h1: "''Latitude'' \<in> set lat_candidates \<and> ''Latitude'' \<in> set (columns sf_example)"
    by (simp add: lat_candidates_def sf_example_def)
  have h2: "''Count'' \<in> set (columns migration_example) \<and> lower ''Count'' \<in> set value_names
      \<and> \<not> truthy None"
    by (simp add: migration_example_def lower_def lower_char_def value_names_def truthy_def)
  have e1: "fst (find_lat_lon_columns sf_example) = Some ''Latitude''"
    by (simp add: find_lat_lon_columns_def sf_example_def lat_candidates_def)
  have e2: "migration_value_field_of migration_example None = Some ''Count''"
    by (simp add: migration_value_field_of_def py_or_def truthy_def migration_example_def
          lower_def lower_char_def value_names_def)
  from resolver_first_match [THEN conjunct1, rule_format, OF h1]
       resolver_first_match [THEN conjunct2, THEN conjunct2, THEN conjunct2, rule_format, OF h2]
       e1 e2
  show ?thesis by blast
qed

text \<open>
  C7, as stated, fails: no candidate is ever skipped. When the caller overrides the value
  column with \<open>country\<close>, the country key is still inferred as \<open>country\<close>, and the
  pipeline goes on with one column in both roles.
\<close>

theorem override_double_claim_counterexample:
  "migration_value_field_of census_example (Some ''country'') = Some ''country''
   \<and> migration_country_field_of census_example None = Some ''country''
   \<and> generate_choropleth census_example (world_of [(''iso_a3'', JStr ''DEU'')])
        None None (Some ''country'')
      = Inr \<lparr>geo_data = world_of [(''iso_a3'', JStr ''DEU'')],
             data = [(Val ''Germany'', Val ''Germany'')],
             key_on = ''feature.properties.iso_a3''\<rparr>"
proof -
  have a1: "migration_value_field_of census_example (Some ''country'') = Some ''country''"
    by (simp add: migration_value_field_of_def py_or_def truthy_def)
  have a2: "migration_country_field_of census_example None = Some ''country''"
    by (simp add: migration_country_field_of_def py_or_def truthy_def census_example_def
          lower_def lower_char_def country_names_def)
  have a3: "geojson_id_field_of (world_of [(''iso_a3'', JStr ''DEU'')]) None
              = Inr (Some ''iso_a3'')"
    by (simp add: geojson_id_field_of_def world_of_def getitem_str_def getitem_0_def
          get_default_def and_then_def geojson_id_names_def py_in_def)
  have a4: "choro_df_of census_example ''country'' ''country''
              = Inr [(Val ''Germany'', Val ''Germany'')]"
    by (simp add: choro_df_of_def census_example_def cell_of_def)
  show ?thesis
    by (simp add: generate_choropleth_def a1 a2 a3 a4 and_then_def key_on_of_def)
qed

text \<open>
  C7, amended. Roles that are inferred never share a column: latitude, longitude and the
  category are pairwise different, and so are the country key and the value when neither
  has an override that is true. This holds because the name tables of different roles
  share no name; the script has no step that skips a claimed column.
\<close>

theorem inferred_roles_distinct:
  "(find_lat_lon_columns df = (Some lat_col, Some lon_col) \<longrightarrow> lat_col \<noteq> lon_col)
   \<and> (find_lat_lon_columns df = (Some lat_col, Some lon_col)
        \<and> find (\<lambda>c. c \<in> set (columns df)) category_candidates = Some category_col
        \<longrightarrow> category_col \<noteq> lat_col \<and> category_col \<noteq> lon_col)
   \<and> (\<not> truthy country_override \<and> \<not> truthy value_override
        \<and> migration_country_field_of df country_override = Some cf
        \<and> migration_value_field_of df value_override = Some vf
        \<longrightarrow> cf \<noteq> vf)"
proof (intro conjI impI)
  assume "find_lat_lon_columns df = (Some lat_col, Some lon_col)"
  then have "lat_col \<in> set lat_candidates" "lon_col \<in> set lon_candidates"
    by (auto simp: find_lat_lon_columns_def dest!: find_in_set)
  then show "lat_col \<noteq> lon_col"
    using candidates_disjoint(1) by blast
next
  assume a: "find_lat_lon_columns df = (Some lat_col, Some lon_col)
        \<and> find (\<lambda>c. c \<in> set (columns df)) category_candidates = Some category_col"
  then have m: "lat_col \<in> set lat_candidates" "lon_col \<in> set lon_candidates"
      "category_col \<in> set category_candidates"
    by (auto simp: find_lat_lon_columns_def dest!: find_in_set)
  show "category_col \<noteq> lat_col" using m candidates_disjoint(2) by blast
  show "category_col \<noteq> lon_col" using m candidates_disjoint(3) by blast
next
  assume "\<not> truthy country_override \<and> \<not> truthy value_override
        \<and> migration_country_field_of df country_override = Some cf
        \<and> migration_value_field_of df value_override = Some vf"
  then have "lower cf \<in> set country_names" "lower vf \<in> set value_names"
    by (auto simp: migration_country_field_of_def migration_value_field_of_def py_or_def
          dest!: find_in_set)
  then show "cf \<noteq> vf"
    using names_disjoint by blast
qed

theorem inferred_roles_distinct_witness:
  "find_lat_lon_columns sf_example = (Some ''Latitude'', Some ''Longitude'')
   \<and> find (\<lambda>c. c \<in> set (columns sf_example)) category_candidates = Some ''offense''
   \<and> ''Latitude'' \<noteq> ''Longitude'' \<and> ''offense'' \<noteq> ''Latitude'' \<and> ''offense'' \<noteq> ''Longitude''
   \<and> migration_country_field_of migration_example None = Some ''Country''
   \<and> migration_value_field_of migration_example (Some []) = Some ''Count''
   \<and> ''Country'' \<noteq> ''Count''"
proof -
  have h1: "find_lat_lon_columns sf_example = (Some ''Latitude'', Some ''Longitude'')"
    by (simp add: find_lat_lon_columns_def sf_example_def lat_candidates_def lon_candidates_def)
  have h2: "find_lat_lon_columns sf_example = (Some ''Latitude'', Some ''Longitude'')
     \<and> find (\<lambda>c. c \<in> set (columns sf_example)) category_candidates = Some ''offense''"
    by (simp add: find_lat_lon_columns_def sf_example_def lat_candidates_def lon_candidates_def
          category_candidates_def)
  have h3: "\<not> truthy None \<and> \<not> truthy (Some [])
     \<and> migration_country_field_of migration_example None = Some ''Country''
     \<and> migration_value_field_of migration_example (Some []) = Some ''Count''"
    by (simp add: migration_country_field_of_def migration_value_field_of_def py_or_def
          truthy_def migration_example_def lower_def lower_char_def country_names_def value_names_def)
  from inferred_roles_distinct [THEN conjunct1, rule_format, OF h1]
       inferred_roles_distinct [THEN conjunct2, THEN conjunct1, rule_format, OF h2]
       inferred_roles_distinct [THEN conjunct2, THEN conjunct2, rule_format, OF h3]
       h2 h3
  show ?thesis by simp
qed

text \<open>
  C3, as stated, fails on the content of the error: the message is a constant. Tables
  with different columns and different missing roles get the same error, so it neither
  lists the columns nor says which role is missing; and in the join pipeline a table
  without any candidate is accepted when the caller overrides both columns.
\<close>

theorem resolution_error_fixed_message_counterexample:
  "generate_sf_cluster_map example_pandas \<lparr>columns = [''a''], rows = []\<rparr> 200000
      = Inl (ValueError sf_message)
   \<and> generate_sf_cluster_map example_pandas \<lparr>columns = [''lat'', ''b''], rows = []\<rparr> 200000
      = Inl (ValueError sf_message)
   \<and> generate_choropleth \<lparr>columns = [''a''], rows = []\<rparr> (world_of []) None None None
      = Inl (ValueError choropleth_message)
   \<and> generate_choropleth \<lparr>columns = [''country'', ''b''], rows = []\<rparr> (world_of []) None None None
      = Inl (ValueError choropleth_message)
   \<and> generate_choropleth \<lparr>columns = [''a'', ''b''], rows = ([] :: string row list)\<rparr> (world_of [])
        (Some ''iso_a3'') (Some ''a'') (Some ''b'')
      = Inr \<lparr>geo_data = world_of [], data = [], key_on = ''feature.properties.iso_a3''\<rparr>"
  by (simp add: eval_sf eval_choropleth)

text \<open>
  C3, amended. A table without any latitude candidate or without any longitude candidate
  ends the point pipeline with \<^verbatim>\<open>ValueError\<close> and the fixed message of line 51; a table
  that has, for the country key or for the value, neither an override that is true nor a
  column with a name of that role ends the join pipeline with \<^verbatim>\<open>ValueError\<close> and the
  fixed message of line 99. In both cases nothing is handed to the renderer.
\<close>

theorem unresolved_role_fails:
  "((\<forall>c \<in> set lat_candidates. c \<notin> set (columns df)) \<or>
    (\<forall>c \<in> set lon_candidates. c \<notin> set (columns df))
      \<longrightarrow> generate_sf_cluster_map env df max_points = Inl (ValueError sf_message))
   \<and> ((\<not> truthy country_override \<and> (\<forall>c \<in> set (columns mdf). lower c \<notin> set country_names)) \<or>
       (\<not> truthy value_override \<and> (\<forall>c \<in> set (columns mdf). lower c \<notin> set value_names))
      \<longrightarrow> generate_choropleth mdf gj id_override country_override value_override
            = Inl (ValueError choropleth_message))"
proof (intro conjI impI)
  assume "(\<forall>c \<in> set lat_candidates. c \<notin> set (columns df)) \<or>
    (\<forall>c \<in> set lon_candidates. c \<notin> set (columns df))"
  then have "find (\<lambda>c. c \<in> set (columns df)) lat_candidates = None
     \<or> find (\<lambda>c. c \<in> set (columns df)) lon_candidates = None"
    by (auto simp: find_None_iff)
  then show "generate_sf_cluster_map env df max_points = Inl (ValueError sf_message)"
    by (auto simp: generate_sf_cluster_map_def find_lat_lon_columns_def Let_def split: option.splits)
next
  assume "(\<not> truthy country_override \<and> (\<forall>c \<in> set (columns mdf). lower c \<notin> set country_names)) \<or>
       (\<not> truthy value_override \<and> (\<forall>c \<in> set (columns mdf). lower c \<notin> set value_names))"
  then have "migration_country_field_of mdf country_override = None
     \<or> migration_value_field_of mdf value_override = None"
    by (auto simp: migration_country_field_of_def migration_value_field_of_def py_or_def find_None_iff)
  then show "generate_choropleth mdf gj id_override country_override value_override
            = Inl (ValueError choropleth_message)"
    by (auto simp: generate_choropleth_def Let_def split: option.splits)
qed

theorem unresolved_role_fails_witness:
  "generate_sf_cluster_map example_pandas \<lparr>columns = [''lat'', ''b''], rows = []\<rparr> 5
      = Inl (ValueError sf_message)
   \<and> generate_choropleth \<lparr>columns = [''country'', ''b''], rows = ([] :: string row list)\<rparr>
        (world_of []) None (Some []) None
      = Inl (ValueError choropleth_message)"
proof -
  have h1: "(\<forall>c \<in> set lat_candidates. c \<notin> set (columns \<lparr>columns = [''lat'', ''b''], rows = ([] :: string row list)\<rparr>)) \<or>
    (\<forall>c \<in> set lon_candidates. c \<notin> set (columns \<lparr>columns = [''lat'', ''b''], rows = ([] :: string row list)\<rparr>))"
    by (simp add: lon_candidates_def)
  have h2: "(\<not> truthy (Some []) \<and> (\<forall>c \<in> set (columns \<lparr>columns = [''country'', ''b''], rows = ([] :: string row list)\<rparr>). lower c \<notin> set country_names)) \<or>
       (\<not> truthy None \<and> (\<forall>c \<in> set (columns \<lparr>columns = [''country'', ''b''], rows = ([] :: string row list)\<rparr>). lower c \<notin> set value_names))"
    by (simp add: truthy_def lower_def lower_char_def value_names_def)
  from unresolved_role_fails [THEN conjunct1, rule_format, OF h1]
       unresolved_role_fails [THEN conjunct2, rule_format, OF h2]
  show ?thesis by blast
qed

text \<open>
  C10. An override that is the empty string is false, so it behaves as no override: the
  pipeline gives the same result, the column is inferred from the table, and the empty
  string is never the resolved column.
\<close>

theorem empty_override_is_no_override:
  "generate_choropleth mdf gj g (Some []) v = generate_choropleth mdf gj g None v
   \<and> generate_choropleth mdf gj g c (Some []) = generate_choropleth mdf gj g c None
   \<and> migration_country_field_of mdf (Some []) = find (\<lambda>c. lower c \<in> set country_names) (columns mdf)
   \<and> migration_value_field_of mdf (Some []) = find (\<lambda>c. lower c \<in> set value_names) (columns mdf)
   \<and> migration_country_field_of mdf c \<noteq> Some []
   \<and> migration_value_field_of mdf v \<noteq> Some []"
  by (auto simp: generate_choropleth_def migration_country_field_of_def migration_value_field_of_def
        py_or_def truthy_def find_named_nonempty split: option.splits)

theorem empty_override_is_no_override_witness:
  "generate_choropleth migration_example (world_of [(''pop'', JNum 123)]) None (Some []) (Some [])
     = generate_choropleth migration_example (world_of [(''pop'', JNum 123)]) None None None
   \<and> migration_country_field_of migration_example (Some []) = Some ''Country''"
proof -
  have a: "generate_choropleth migration_example (world_of [(''pop'', JNum 123)]) None (Some []) (Some [])
     = generate_choropleth migration_example (world_of [(''pop'', JNum 123)]) None None (Some [])"
    by (rule empty_override_is_no_override [THEN conjunct1])
  have b: "generate_choropleth migration_example (world_of [(''pop'', JNum 123)]) None None (Some [])
     = generate_choropleth migration_example (world_of [(''pop'', JNum 123)]) None None None"
    by (rule empty_override_is_no_override [THEN conjunct2, THEN conjunct1])
  have c: "migration_country_field_of migration_example (Some [])
     = find (\<lambda>c. lower c \<in> set country_names) (columns migration_example)"
    by (rule empty_override_is_no_override [THEN conjunct2, THEN conjunct2, THEN conjunct1])
  have d: "find (\<lambda>c. lower c \<in> set country_names) (columns migration_example) = Some ''Country''"
    by (simp add: migration_example_def lower_def lower_char_def country_names_def)
  from a b c d show ?thesis by simp
qed

section \<open>Filtering and sampling\<close>

text \<open>
  C2, as stated, names an error for an empty dataset. The script has none and does not
  look at the number of rows: when every row lacks a coordinate, filtering and sampling
  succeed, both medians are NaN, and the failure is the \<^verbatim>\<open>ValueError\<close> with which
  \<^verbatim>\<open>folium.Map\<close> refuses a NaN location on line 66.
\<close>

theorem empty_after_filter_counterexample:
  "rows (dropna [''lat'', ''lon''] sf_all_null) = []
   \<and> limit_points example_pandas 200000 (dropna [''lat'', ''lon''] sf_all_null)
       = Inr (dropna [''lat'', ''lon''] sf_all_null)
   \<and> median_of example_pandas [] = Inr Null
   \<and> generate_sf_cluster_map example_pandas sf_all_null 200000
       = Inl (ValueError ''Location values cannot contain NaNs.'')"
  by (simp add: eval_sf sf_all_null_def nan_location_message_def)

text \<open>
  C2, amended. When both coordinate columns are resolved, no row is left after the rows
  without coordinates are dropped, and the cap is not negative (line 171 always runs with
  the default cap), the point pipeline fails and builds no map, empty or otherwise. The
  error is not one for an empty dataset: it is the \<^verbatim>\<open>ValueError\<close> of \<^verbatim>\<open>folium.Map\<close> for
  the NaN centre, the median of the empty coordinate columns.
\<close>

theorem empty_after_filter_fails_at_map:
  assumes "find_lat_lon_columns df = (Some lat_col, Some lon_col)"
    and "rows (dropna [lat_col, lon_col] df) = []"
    and "0 \<le> max_points"
  shows "generate_sf_cluster_map env df max_points = Inl (ValueError nan_location_message)"
proof -
  have ne: "lat_col \<noteq> [] \<and> lon_col \<noteq> []"
    using assms(1) by (rule find_lat_lon_nonempty)
  have lim: "limit_points env max_points (dropna [lat_col, lon_col] df)
               = Inr (dropna [lat_col, lon_col] df)"
    using assms(2,3) by (simp add: limit_points_def)
  show ?thesis
    using assms(1,2) ne lim
    by (simp add: generate_sf_cluster_map_def and_then_def median_of_def folium_Map_def)
qed

theorem empty_after_filter_fails_at_map_witness:
  "generate_sf_cluster_map example_pandas sf_all_null 200000
     = Inl (ValueError nan_location_message)"
proof -
  have h1: "find_lat_lon_columns sf_all_null = (Some ''lat'', Some ''lon'')"
    by (simp add: find_lat_lon_columns_def sf_all_null_def lat_candidates_def lon_candidates_def)
  have h2: "rows (dropna [''lat'', ''lon''] sf_all_null) = []"
    by (simp add: dropna_def sf_all_null_def cell_of_def)
  have h3: "(0::int) \<le> 200000" by simp
  show ?thesis
    by (rule empty_after_filter_fails_at_map [OF h1 h2 h3])
qed

text \<open>
  C9. When the number of rows left after dropping the rows without coordinates is at most
  \<open>max_points\<close>, the sampling step returns the filtered frame as it is: the same rows in
  the same order, and the sampler is not called.
\<close>

theorem sampling_identity_below_cap:
  "int (length (rows df)) \<le> max_points \<Longrightarrow> limit_points env max_points df = Inr df"
  by (simp add: limit_points_def)

theorem sampling_identity_below_cap_witness:
  "int (length (rows (dropna [''Latitude'', ''Longitude''] sf_example))) \<le> 2
   \<and> limit_points example_pandas 2 (dropna [''Latitude'', ''Longitude''] sf_example)
       = Inr (dropna [''Latitude'', ''Longitude''] sf_example)"
proof -
  have h: "int (length (rows (dropna [''Latitude'', ''Longitude''] sf_example))) \<le> 2"
    by (simp add: dropna_def sf_example_def cell_of_def)
  from h sampling_identity_below_cap [OF h, of example_pandas] show ?thesis
    by simp
qed

text \<open>
  C6. The sample depends on the sampler only through its results for the seed that the
  script fixes, \<^verbatim>\<open>random_state=1\<close>: two runs whose samplers agree for that seed keep the
  same rows of the same filtered table under the same cap, whatever the samplers do for
  other seeds.
\<close>

theorem sampling_deterministic:
  assumes "\<And>n rs. df_sample env1 n random_state rs = df_sample env2 n random_state rs"
  shows "limit_points env1 max_points df = limit_points env2 max_points df"
  using assms by (simp add: limit_points_def)

theorem sampling_deterministic_witness:
  "(\<forall>n rs. df_sample example_pandas n random_state rs = df_sample reseeded_pandas n random_state rs)
   \<and> limit_points example_pandas 1 (dropna [''Latitude'', ''Longitude''] sf_example)
       = limit_points reseeded_pandas 1 (dropna [''Latitude'', ''Longitude''] sf_example)"
proof -
  have h: "\<And>n rs. df_sample example_pandas n random_state rs = df_sample reseeded_pandas n random_state rs"
    by (simp add: example_pandas_def reseeded_pandas_def random_state_def)
  from h sampling_deterministic [OF h] show ?thesis by blast
qed

end
